theory Spec2Isabelle
  imports Complex_Main
begin

section \<open>Python values\<close>

text \<open>
  The loader hands over nested Python objects.  The part of them that \<open>read_raw_xdf\<close>
  walks dynamically (the channel descriptor, the event values of a marker stream) is a
  value of \<open>pyval\<close>: \<open>None\<close>, a \<open>str\<close>, a \<open>numpy\<close> number, a one-dimensional numeric array
  (a row of a sample matrix), a \<open>list\<close>, or a \<open>dict\<close> with string keys (kept as an
  association list in insertion order; the first binding of a key is the one looked up).
  The number type \<open>'a\<close> is left open: nothing below depends on how floating-point
  arithmetic rounds.
\<close>

datatype 'a pyval =
    PNone
  | PStr string
  | PNum 'a
  | PArr "'a list"
  | PList "'a pyval list"
  | PDict "(string \<times> 'a pyval) list"

text \<open>
  The exceptions that can leave \<open>read_raw_xdf\<close>.  \<open>NoStreamFound\<close> is
  \<open>ValueError('No EEG stream found')\<close>, the one exception the function raises itself;
  \<open>LibError\<close> is any exception raised inside \<open>numpy\<close> or \<open>mne\<close>.
\<close>

datatype error = NoStreamFound | TypeError | IndexError | KeyError | LibError

text \<open>\<open>obj[key]\<close> with a string key.\<close>

fun subscript_key :: "'a pyval \<Rightarrow> string \<Rightarrow> error + 'a pyval" where
  "subscript_key (PDict kvs) k = (case map_of kvs k of None \<Rightarrow> Inl KeyError | Some v \<Rightarrow> Inr v)"
| "subscript_key (PList xs) k = Inl TypeError"
| "subscript_key (PStr s) k = Inl TypeError"
| "subscript_key PNone k = Inl TypeError"
| "subscript_key (PArr xs) k = Inl IndexError"
| "subscript_key (PNum x) k = Inl IndexError"

text \<open>\<open>obj[0]\<close>.  A \<open>dict\<close> of the model has string keys only, so \<open>0\<close> is never a key.\<close>

fun subscript_0 :: "'a pyval \<Rightarrow> error + 'a pyval" where
  "subscript_0 (PList []) = Inl IndexError"
| "subscript_0 (PList (x # xs)) = Inr x"
| "subscript_0 (PStr []) = Inl IndexError"
| "subscript_0 (PStr (c # cs)) = Inr (PStr [c])"
| "subscript_0 (PArr []) = Inl IndexError"
| "subscript_0 (PArr (x # xs)) = Inr (PNum x)"
| "subscript_0 (PDict kvs) = Inl KeyError"
| "subscript_0 PNone = Inl TypeError"
| "subscript_0 (PNum x) = Inl IndexError"

text \<open>The items a \<open>for\<close> loop over the object visits.\<close>

fun py_iter :: "'a pyval \<Rightarrow> error + 'a pyval list" where
  "py_iter (PList xs) = Inr xs"
| "py_iter (PDict kvs) = Inr (map (\<lambda>kv. PStr (fst kv)) kvs)"
| "py_iter (PStr s) = Inr (map (\<lambda>c. PStr [c]) s)"
| "py_iter (PArr xs) = Inr (map PNum xs)"
| "py_iter PNone = Inl TypeError"
| "py_iter (PNum x) = Inl TypeError"

text \<open>
  \<open>str(v)\<close>: a \<open>str\<close> is returned as it is; for every other value Python prints its
  \<open>repr\<close>, which is a parameter of the model.
\<close>

fun py_str :: "('a pyval \<Rightarrow> string) \<Rightarrow> 'a pyval \<Rightarrow> string" where
  "py_str repr (PStr s) = s"
| "py_str repr v = repr v"

text \<open>Truth value of an optional string argument: \<open>None\<close> and \<open>''\<close> are false.\<close>

fun truthy :: "string option \<Rightarrow> bool" where
  "truthy None = False"
| "truthy (Some s) = (s \<noteq> [])"

text \<open>The decimal numeral that the f-string \<open>f'EEG {n}'\<close> prints for \<open>n \<ge> 0\<close>.\<close>

definition digit_char :: "nat \<Rightarrow> char" where
  "digit_char n = ''0123456789'' ! n"

fun str_nat :: "nat \<Rightarrow> string" where
  "str_nat n = (if n < 10 then [digit_char n] else str_nat (n div 10) @ [digit_char (n mod 10)])"

declare str_nat.simps [simp del]

section \<open>Stream records\<close>

text \<open>
  A two-dimensional \<open>numpy\<close> array: its shape and its entries.  The shape is kept
  apart from the entries because an array with no rows still has a number of columns.
\<close>

record 'a ndarray =
  shape0 :: nat
  shape1 :: nat
  entry :: "nat \<Rightarrow> nat \<Rightarrow> 'a"

text \<open>
  \<open>stream['time_series']\<close> is a numeric array (samples by channels) for a numeric
  stream and a Python list of event values for a string stream.
\<close>

datatype 'a series = Numeric "'a ndarray" | Events "'a pyval list"

text \<open>
  \<open>stream['info']\<close>.  The fields \<open>name\<close>, \<open>type\<close>, \<open>channel_count\<close> and
  \<open>nominal_srate\<close> hold the first element of the loader's one-element lists, the last
  two already converted by \<open>int\<close> and \<open>float\<close>; \<open>channel_count\<close> is a count.
  \<open>desc\<close> is the value under the key \<open>'desc'\<close>, \<open>None\<close> when the key is missing.
\<close>

record 'a stream_info =
  name :: string
  type :: string
  channel_count :: nat
  nominal_srate :: 'a
  desc :: "'a pyval option"

record 'a stream =
  info :: "'a stream_info"
  time_series :: "'a series"
  time_stamps :: "'a list"

section \<open>Selecting the data stream (lines 41-54)\<close>

text \<open>
  The \<open>for\<close> loop with its two \<open>break\<close>s; \<open>None\<close> is the initial value of
  \<open>eeg_stream\<close>, left unchanged when no stream matches.
\<close>

fun find_eeg_stream :: "string option \<Rightarrow> string \<Rightarrow> 'a stream list \<Rightarrow> 'a stream option" where
  "find_eeg_stream name_stream_eeg data_type [] = None"
| "find_eeg_stream name_stream_eeg data_type (s # streams) =
     (if truthy name_stream_eeg
      then (if Some (name (info s)) = name_stream_eeg then Some s
            else find_eeg_stream name_stream_eeg data_type streams)
      else (if type (info s) = data_type then Some s
            else find_eeg_stream name_stream_eeg data_type streams))"

section \<open>Channel labels (lines 57-66)\<close>

text \<open>Sequencing of fallible steps: the first exception ends the computation.\<close>

fun and_then :: "error + 'b \<Rightarrow> ('b \<Rightarrow> error + 'c) \<Rightarrow> error + 'c" where
  "and_then (Inl e) f = Inl e"
| "and_then (Inr x) f = f x"

text \<open>The exceptions named by the \<open>except\<close> clause of line 63.\<close>

fun caught :: "error \<Rightarrow> bool" where
  "caught TypeError = True"
| "caught IndexError = True"
| "caught KeyError = True"
| "caught e = False"

text \<open>
  The iterable of the \<open>for\<close> loop of line 61:
  \<open>eeg_stream["info"]["desc"][0]["channels"][0]["channel"]\<close>, and the items the loop
  visits.
\<close>

definition channel_entries :: "'a stream_info \<Rightarrow> error + 'a pyval list" where
  "channel_entries i =
     and_then (case desc i of None \<Rightarrow> Inl KeyError | Some d \<Rightarrow> Inr d) (\<lambda>d.
     and_then (subscript_0 d) (\<lambda>d0.
     and_then (subscript_key d0 ''channels'') (\<lambda>cs.
     and_then (subscript_0 cs) (\<lambda>c0.
     and_then (subscript_key c0 ''channel'') py_iter))))"

text \<open>
  The loop body of line 62, run over the remaining items with the list \<open>labels\<close>
  built so far.  The result is \<open>labels\<close> as the loop leaves it, and the exception that
  ended the loop, if one did: the labels appended before the exception stay in the list.
\<close>

fun append_labels ::
  "('a pyval \<Rightarrow> string) \<Rightarrow> 'a pyval list \<Rightarrow> string list \<Rightarrow> string list \<times> error option" where
  "append_labels repr [] labels = (labels, None)"
| "append_labels repr (ch # chs) labels =
     (case and_then (subscript_key ch ''label'') subscript_0 of
        Inl e \<Rightarrow> (labels, Some e)
      | Inr v \<Rightarrow> append_labels repr chs (labels @ [py_str repr v]))"

text \<open>
  Lines 59-64: \<open>labels\<close> after the \<open>try\<close> statement.  An exception that the
  \<open>except\<close> clause does not name would propagate.
\<close>

definition try_labels :: "('a pyval \<Rightarrow> string) \<Rightarrow> 'a stream_info \<Rightarrow> error + string list" where
  "try_labels repr i =
     (case channel_entries i of
        Inl e \<Rightarrow> (if caught e then Inr [] else Inl e)
      | Inr chs \<Rightarrow>
          (case append_labels repr chs [] of
             (labels, None) \<Rightarrow> Inr labels
           | (labels, Some e) \<Rightarrow> (if caught e then Inr labels else Inl e)))"

text \<open>Line 66: \<open>[f'EEG {n}' for n in range(n_chans)]\<close>.\<close>

definition generated_labels :: "nat \<Rightarrow> string list" where
  "generated_labels n_chans = map (\<lambda>n. ''EEG '' @ str_nat n) [0..<n_chans]"

text \<open>Lines 59-66: the channel labels handed to \<open>create_info\<close>.\<close>

definition channel_labels :: "('a pyval \<Rightarrow> string) \<Rightarrow> 'a stream_info \<Rightarrow> error + string list" where
  "channel_labels repr i =
     and_then (try_labels repr i) (\<lambda>labels.
       Inr (if labels = [] then generated_labels (channel_count i) else labels))"

section \<open>The recording object\<close>

text \<open>
  \<open>create_info\<close>, \<open>RawArray\<close> and \<open>Annotations\<close> belong to the analysis library
  \<open>mne\<close>, and \<open>np.array\<close> to \<open>numpy\<close>; neither is part of the repository.  Following
  section 3 of the specification, the recording owns a channels-by-samples matrix, a
  channel-metadata record (names, sample rate, per-channel type) and an ordered collection
  of annotations (onset, duration, description).
\<close>

record 'a mne_info =
  ch_names :: "string list"
  sfreq :: 'a
  ch_types :: "string list"

record 'a annotations =
  onset :: "'a list"
  duration :: "int list"
  description :: "'a pyval list"

record 'a raw =
  data :: "'a ndarray"
  ch_info :: "'a mne_info"
  filenames :: "string list"
  annotations :: "'a annotations"

text \<open>
  Modelled from the spec: \<open>mne.create_info\<close>, which is not part of the repository.  By
  sections 4.4 and 7 a declared channel count that differs from the actual one is
  rejected by the library with an error of its own; here the channel names are counted
  against the channel types, of which there are \<open>n_chans\<close>.
\<close>

definition create_info :: "string list \<Rightarrow> 'a \<Rightarrow> string list \<Rightarrow> error + 'a mne_info" where
  "create_info names fs types =
     (if length names \<noteq> length types then Inl LibError
      else Inr \<lparr>ch_names = names, sfreq = fs, ch_types = types\<rparr>)"

text \<open>
  Modelled from the spec: \<open>np.array\<close> on the sample data, which is not part of the
  repository.  By section 7 sample data that is not numeric ends in an error of the
  library.
\<close>

definition np_array :: "'a series \<Rightarrow> error + 'a ndarray" where
  "np_array ts = (case ts of Numeric a \<Rightarrow> Inr a | Events xs \<Rightarrow> Inl LibError)"

text \<open>The attribute \<open>.T\<close> of an array, line 69.\<close>

definition T :: "'a ndarray \<Rightarrow> 'a ndarray" where
  "T a = \<lparr>shape0 = shape1 a, shape1 = shape0 a, entry = (\<lambda>i j. entry a j i)\<rparr>"

definition no_annotations :: "'a annotations" where
  "no_annotations = \<lparr>onset = [], duration = [], description = []\<rparr>"

text \<open>
  Modelled from the spec: \<open>mne.io.RawArray\<close>, which is not part of the repository.  By
  sections 4.4 and 7 a sample matrix whose channel count differs from the declared one is
  rejected by the library; a new recording has no annotations (section 8, property 1).
\<close>

definition RawArray :: "'a ndarray \<Rightarrow> 'a mne_info \<Rightarrow> error + 'a raw" where
  "RawArray d i =
     (if shape0 d \<noteq> length (ch_names i) then Inl LibError
      else Inr \<lparr>data = d, ch_info = i, filenames = [], annotations = no_annotations\<rparr>)"

text \<open>
  The three operations of the library on annotations that \<open>read_raw_xdf\<close> calls are
  parameters of the model: the constructor \<open>Annotations(onset, duration, description)\<close>,
  the sum \<open>a + b\<close> of two collections, and \<open>raw.set_annotations(a)\<close>.  Each returns its
  result, or \<open>None\<close> when the library raises.  Nothing is assumed about what they do:
  which events the library keeps, and in which order, is the library's matter.
\<close>

record 'a mne =
  Annotations :: "'a list \<Rightarrow> int list \<Rightarrow> 'a pyval list \<Rightarrow> 'a annotations option"
  annotations_add :: "'a annotations \<Rightarrow> 'a annotations \<Rightarrow> 'a annotations option"
  set_annotations :: "'a raw \<Rightarrow> 'a annotations \<Rightarrow> 'a raw option"

text \<open>A call into the library: an exception raised there leaves the function.\<close>

definition lib_call :: "'b option \<Rightarrow> error + 'b" where
  "lib_call x = (case x of None \<Rightarrow> Inl LibError | Some y \<Rightarrow> Inr y)"

section \<open>Building the recording (lines 57-76)\<close>

text \<open>\<open>eeg_stream["time_stamps"][0]\<close>, line 76.\<close>

definition first_timestamp :: "'a list \<Rightarrow> error + 'a" where
  "first_timestamp ts = (case ts of [] \<Rightarrow> Inl IndexError | t # _ \<Rightarrow> Inr t)"

text \<open>Lines 57-73: the \<open>Raw\<close> object of the selected stream, before any annotation.\<close>

definition make_raw :: "('a pyval \<Rightarrow> string) \<Rightarrow> string \<Rightarrow> 'a stream \<Rightarrow> error + 'a raw" where
  "make_raw repr fname eeg_stream =
     (let n_chans = channel_count (info eeg_stream);
          fs = nominal_srate (info eeg_stream)
      in and_then (channel_labels repr (info eeg_stream)) (\<lambda>labels.
         and_then (create_info labels fs (replicate n_chans ''eeg'')) (\<lambda>i.
         and_then (np_array (time_series eeg_stream)) (\<lambda>a.
         and_then (RawArray (T a) i) (\<lambda>r.
         Inr (r\<lparr>filenames := [fname]\<rparr>))))))"

section \<open>Marker streams (lines 79-99)\<close>

text \<open>
  The second \<open>for\<close> loop: with a name, the \<open>break\<close> of line 85 ends the scan at the
  first stream of that name; without one, every stream of the marker type is appended.
\<close>

fun find_markers_streams :: "string option \<Rightarrow> string \<Rightarrow> 'a stream list \<Rightarrow> 'a stream list" where
  "find_markers_streams name_stream_markers data_type_markers [] = []"
| "find_markers_streams name_stream_markers data_type_markers (s # streams) =
     (if truthy name_stream_markers
      then (if Some (name (info s)) = name_stream_markers then [s]
            else find_markers_streams name_stream_markers data_type_markers streams)
      else (if type (info s) = data_type_markers
            then s # find_markers_streams name_stream_markers data_type_markers streams
            else find_markers_streams name_stream_markers data_type_markers streams))"

text \<open>
  The items a loop over \<open>marker_stream["time_series"]\<close> visits: the elements of a
  list, the rows of an array.
\<close>

definition series_items :: "'a series \<Rightarrow> 'a pyval list" where
  "series_items ts =
     (case ts of
        Events xs \<Rightarrow> xs
      | Numeric a \<Rightarrow> map (\<lambda>i. PArr (map (entry a i) [0..<shape1 a])) [0..<shape0 a])"

text \<open>\<open>item[0] if isinstance(item, list) else item\<close>.\<close>

fun describe :: "'a pyval \<Rightarrow> error + 'a pyval" where
  "describe (PList xs) = subscript_0 (PList xs)"
| "describe v = Inr v"

text \<open>The list comprehension of line 95; the first failing item ends it.\<close>

fun descriptions_of :: "'a pyval list \<Rightarrow> error + 'a pyval list" where
  "descriptions_of [] = Inr []"
| "descriptions_of (item # items) =
     and_then (describe item) (\<lambda>d.
     and_then (descriptions_of items) (\<lambda>ds. Inr (d # ds)))"

text \<open>
  Lines 93-98: the onsets, the descriptions and the durations of one marker stream, and
  the call of the constructor on them.
\<close>

definition stream_annotations ::
  "'a mne \<Rightarrow> 'a::minus \<Rightarrow> 'a stream \<Rightarrow> error + 'a annotations" where
  "stream_annotations lib first_samp marker_stream =
     (let onsets = map (\<lambda>t. t - first_samp) (time_stamps marker_stream)
      in and_then (descriptions_of (series_items (time_series marker_stream))) (\<lambda>descriptions.
         lib_call (Annotations lib onsets (replicate (length onsets) 0) descriptions)))"

text \<open>
  The loop of lines 91-99 over the selected marker streams.  Line 99 first forms the sum
  of the recording's collection and the new annotations, then stores it.
\<close>

fun add_markers :: "'a mne \<Rightarrow> 'a::minus \<Rightarrow> 'a stream list \<Rightarrow> 'a raw \<Rightarrow> error + 'a raw" where
  "add_markers lib first_samp [] r = Inr r"
| "add_markers lib first_samp (marker_stream # rest) r =
     and_then (stream_annotations lib first_samp marker_stream) (\<lambda>a.
     and_then (lib_call (annotations_add lib (annotations r) a)) (\<lambda>s.
     and_then (lib_call (set_annotations lib r s)) (\<lambda>r'.
     add_markers lib first_samp rest r')))"

text \<open>
  The value of the conditional expression of line 95 on an item for which it does not
  raise: the first element of a list, and any other value itself.
\<close>

fun described :: "'a pyval \<Rightarrow> 'a pyval" where
  "described (PList (x # xs)) = x"
| "described v = v"


section \<open>The function\<close>

text \<open>
  \<open>read_raw_xdf\<close>, applied to the stream list that \<open>load_xdf(fname)\<close> returned.
  \<open>lib\<close> holds the library's operations on annotations, and \<open>repr\<close> is Python's
  \<open>repr\<close> on the values that are not strings.
\<close>

definition read_raw_xdf ::
  "'a mne \<Rightarrow> ('a pyval \<Rightarrow> string) \<Rightarrow> 'a::minus stream list \<Rightarrow> string \<Rightarrow> string option \<Rightarrow>
   string option \<Rightarrow> string \<Rightarrow> string \<Rightarrow> error + 'a raw" where
  "read_raw_xdf lib repr streams fname name_stream_eeg name_stream_markers data_type
     data_type_markers =
     (case find_eeg_stream name_stream_eeg data_type streams of
        None \<Rightarrow> Inl NoStreamFound
      | Some eeg_stream \<Rightarrow>
          and_then (make_raw repr fname eeg_stream) (\<lambda>r.
          and_then (first_timestamp (time_stamps eeg_stream)) (\<lambda>first_samp.
          add_markers lib first_samp
            (find_markers_streams name_stream_markers data_type_markers streams) r)))"

section \<open>Example recordings\<close>

text \<open>
  A two-channel data stream of three samples with no channel descriptor, a second data
  stream of the same type, and two marker streams that share their name.  The second
  marker stream has an event before the first sample of the data, a bare string as
  event value, and an event value with two elements.
\<close>

definition ex_eeg :: "real stream" where
  "ex_eeg =
     \<lparr>info = \<lparr>name = ''amp'', type = ''EEG'', channel_count = 2, nominal_srate = 100,
              desc = None\<rparr>,
      time_series = Numeric \<lparr>shape0 = 3, shape1 = 2, entry = (\<lambda>i j. real (2 * i + j))\<rparr>,
      time_stamps = [10, 11, 12]\<rparr>"

definition ex_eeg2 :: "real stream" where
  "ex_eeg2 =
     \<lparr>info = \<lparr>name = ''amp2'', type = ''EEG'', channel_count = 1, nominal_srate = 50,
              desc = None\<rparr>,
      time_series = Numeric \<lparr>shape0 = 2, shape1 = 1, entry = (\<lambda>i j. 0)\<rparr>,
      time_stamps = [3, 4]\<rparr>"

definition ex_mk_a :: "real stream" where
  "ex_mk_a =
     \<lparr>info = \<lparr>name = ''mk'', type = ''Markers'', channel_count = 1, nominal_srate = 0,
              desc = None\<rparr>,
      time_series = Events [PList [PStr ''a''], PList [PStr ''b''], PList [PStr ''c'']],
      time_stamps = [10, 15, 20]\<rparr>"

definition ex_mk_b :: "real stream" where
  "ex_mk_b =
     \<lparr>info = \<lparr>name = ''mk'', type = ''Markers'', channel_count = 2, nominal_srate = 0,
              desc = None\<rparr>,
      time_series = Events [PStr ''x'', PList [PStr ''y'', PStr ''z'']],
      time_stamps = [9, 30]\<rparr>"

text \<open>The recording of \<open>ex_eeg\<close> without annotations.\<close>

definition ex_raw_plain :: "real raw" where
  "ex_raw_plain =
     \<lparr>data = \<lparr>shape0 = 2, shape1 = 3, entry = (\<lambda>i j. real (2 * j + i))\<rparr>,
      ch_info = \<lparr>ch_names = [''EEG 0'', ''EEG 1''], sfreq = 100, ch_types = [''eeg'', ''eeg'']\<rparr>,
      filenames = [''rec.xdf''],
      annotations = \<lparr>onset = [], duration = [], description = []\<rparr>\<rparr>"

text \<open>Python's \<open>repr\<close> in the examples; no example prints a value that is not a string.\<close>

definition ex_repr :: "real pyval \<Rightarrow> string" where
  "ex_repr v = ''?''"

text \<open>
  The data stream with a channel descriptor that lists two channels, the first labelled
  \<open>'Fp1'\<close> and the second without a label:
  \<open>info['desc'] = [{'channels': [{'channel': [{'label': ['Fp1']}, {}]}]}]\<close>.
\<close>

definition ex_partial :: "real stream" where
  "ex_partial =
     ex_eeg\<lparr>info := (info ex_eeg)\<lparr>desc := Some (PList [PDict [(''channels'',
       PList [PDict [(''channel'',
         PList [PDict [(''label'', PList [PStr ''Fp1''])], PDict []])]])]])\<rparr>\<rparr>"

text \<open>A marker stream with one event whose value is the empty list.\<close>

definition ex_mk_empty :: "real stream" where
  "ex_mk_empty =
     \<lparr>info = \<lparr>name = ''mk0'', type = ''Markers'', channel_count = 0, nominal_srate = 0,
              desc = None\<rparr>,
      time_series = Events [PList []],
      time_stamps = [11]\<rparr>"

text \<open>
  A longer data stream: two channels, 31 samples at 1 Hz, the first one at time 10.  The
  recording covers the onsets from 0 to 31 seconds.
\<close>

definition ex_long :: "real stream" where
  "ex_long =
     \<lparr>info = \<lparr>name = ''amp'', type = ''EEG'', channel_count = 2, nominal_srate = 1,
              desc = None\<rparr>,
      time_series = Numeric \<lparr>shape0 = 31, shape1 = 2, entry = (\<lambda>i j. real (2 * i + j))\<rparr>,
      time_stamps = map real [10..<41]\<rparr>"

definition ex_long_plain :: "real raw" where
  "ex_long_plain =
     \<lparr>data = \<lparr>shape0 = 2, shape1 = 31, entry = (\<lambda>i j. real (2 * j + i))\<rparr>,
      ch_info = \<lparr>ch_names = [''EEG 0'', ''EEG 1''], sfreq = 1, ch_types = [''eeg'', ''eeg'']\<rparr>,
      filenames = [''rec.xdf''],
      annotations = \<lparr>onset = [], duration = [], description = []\<rparr>\<rparr>"

text \<open>Two marker streams whose events interleave in time.\<close>

definition ex_mk_c :: "real stream" where
  "ex_mk_c =
     \<lparr>info = \<lparr>name = ''cue'', type = ''Markers'', channel_count = 1, nominal_srate = 0,
              desc = None\<rparr>,
      time_series = Events [PList [PStr ''c1''], PList [PStr ''c2'']],
      time_stamps = [12, 20]\<rparr>"

definition ex_mk_d :: "real stream" where
  "ex_mk_d =
     \<lparr>info = \<lparr>name = ''resp'', type = ''Markers'', channel_count = 1, nominal_srate = 0,
              desc = None\<rparr>,
      time_series = Events [PList [PStr ''d1''], PList [PStr ''d2'']],
      time_stamps = [11, 15]\<rparr>"

text \<open>
  The library of the examples.  On the calls that the examples make (onsets in whole
  seconds, with as many zero durations and as many string descriptions; a recording with
  samples and a positive sample rate) it does what \<open>mne\<close> does.  The constructor and the
  sum keep the events ordered by onset, events of equal onset in the order in which they
  were given; a single description stands for every onset.  \<open>set_annotations\<close> keeps the
  events whose onset lies in the recording, from 0 to the number of samples divided by
  the sample rate.  The constructor refuses durations other than 0, descriptions that are
  not strings, and descriptions that are neither one nor as many as the onsets; no
  example makes such a call.
\<close>

definition events :: "'a annotations \<Rightarrow> ('a \<times> int \<times> 'a pyval) list" where
  "events a = zip (onset a) (zip (duration a) (description a))"

definition of_events :: "('a \<times> int \<times> 'a pyval) list \<Rightarrow> 'a annotations" where
  "of_events es =
     \<lparr>onset = map fst es, duration = map (\<lambda>e. fst (snd e)) es,
      description = map (\<lambda>e. snd (snd e)) es\<rparr>"

definition by_onset :: "real annotations \<Rightarrow> real annotations" where
  "by_onset a = of_events (sort_key fst (events a))"

fun is_str :: "'a pyval \<Rightarrow> bool" where
  "is_str (PStr s) = True"
| "is_str v = False"

definition ex_Annotations ::
  "real list \<Rightarrow> int list \<Rightarrow> real pyval list \<Rightarrow> real annotations option" where
  "ex_Annotations onsets durations descriptions =
     (let ds = (if length descriptions = 1 then replicate (length onsets) (hd descriptions)
                else descriptions)
      in if length durations = length onsets \<and> length ds = length onsets \<and>
            list_all (\<lambda>d. d = 0) durations \<and> list_all is_str ds
         then Some (by_onset \<lparr>onset = onsets, duration = durations, description = ds\<rparr>)
         else None)"

definition ex_add :: "real annotations \<Rightarrow> real annotations \<Rightarrow> real annotations option" where
  "ex_add a b =
     Some (by_onset \<lparr>onset = onset a @ onset b, duration = duration a @ duration b,
                     description = description a @ description b\<rparr>)"

definition ex_set :: "real raw \<Rightarrow> real annotations \<Rightarrow> real raw option" where
  "ex_set r a =
     (if 0 < sfreq (ch_info r) \<and> 0 < shape1 (data r)
      then Some (r\<lparr>annotations := of_events (filter
             (\<lambda>e. 0 \<le> fst e \<and> fst e \<le> real (shape1 (data r)) / sfreq (ch_info r))
             (events a))\<rparr>)
      else None)"

definition ex_mne :: "real mne" where
  "ex_mne = \<lparr>Annotations = ex_Annotations, annotations_add = ex_add, set_annotations = ex_set\<rparr>"

text \<open>
  The recordings that the examples return: \<open>ex_long\<close> with the marker streams \<open>ex_mk_a\<close>
  and \<open>ex_mk_b\<close>, and with \<open>ex_mk_c\<close> and \<open>ex_mk_d\<close>.
\<close>

definition ex_long_raw :: "real raw" where
  "ex_long_raw =
     ex_long_plain\<lparr>annotations :=
       \<lparr>onset = [0, 5, 10, 20], duration = [0, 0, 0, 0],
        description = [PStr ''a'', PStr ''b'', PStr ''c'', PStr ''y'']\<rparr>\<rparr>"

definition ex_sorted_raw :: "real raw" where
  "ex_sorted_raw =
     ex_long_plain\<lparr>annotations :=
       \<lparr>onset = [1, 2, 5, 10], duration = [0, 0, 0, 0],
        description = [PStr ''d1'', PStr ''c1'', PStr ''d2'', PStr ''c2'']\<rparr>\<rparr>"

section \<open>Properties\<close>

lemmas ex_defs = ex_eeg_def ex_eeg2_def ex_mk_a_def ex_mk_b_def ex_raw_plain_def

lemma find_eeg_stream_by_name:
  "truthy nm \<Longrightarrow>
   find_eeg_stream nm dt streams = List.find (\<lambda>s. Some (name (info s)) = nm) streams"
  by (induction streams) auto

lemma find_eeg_stream_by_type:
  "\<not> truthy nm \<Longrightarrow>
   find_eeg_stream nm dt streams = List.find (\<lambda>s. type (info s) = dt) streams"
  by (induction streams) auto

subsection \<open>Fallible steps\<close>

lemma and_then_Inl: "and_then m f = Inl e \<longleftrightarrow> m = Inl e \<or> (\<exists>x. m = Inr x \<and> f x = Inl e)"
  by (cases m) auto

lemma and_then_Inr: "and_then m f = Inr y \<longleftrightarrow> (\<exists>x. m = Inr x \<and> f x = Inr y)"
  by (cases m) auto

subsection \<open>The label traversal raises only what line 63 catches\<close>

lemma subscript_key_caught: "subscript_key v k = Inl e \<Longrightarrow> caught e"
  by (cases v) (auto split: option.splits)

lemma subscript_0_caught: "subscript_0 v = Inl e \<Longrightarrow> caught e"
  by (induction v rule: subscript_0.induct) auto

lemma py_iter_caught: "py_iter v = Inl e \<Longrightarrow> caught e"
  by (cases v) auto

lemma channel_entries_caught: "channel_entries i = Inl e \<Longrightarrow> caught e"
  unfolding channel_entries_def and_then_Inl
  by (auto split: option.splits dest: subscript_key_caught subscript_0_caught py_iter_caught)

lemma append_labels_caught: "append_labels repr chs labels = (labels', Some e) \<Longrightarrow> caught e"
proof (induction chs arbitrary: labels)
  case Nil
  then show ?case by simp
next
  case (Cons ch chs)
  show ?case
  proof (cases "and_then (subscript_key ch ''label'') subscript_0")
    case (Inl e')
    with Cons.prems have "e' = e" by simp
    with Inl show ?thesis
      by (auto simp: and_then_Inl dest: subscript_key_caught subscript_0_caught)
  next
    case (Inr v)
    with Cons show ?thesis by simp
  qed
qed

lemma try_labels_total: "\<exists>labels. try_labels repr i = Inr labels"
proof (cases "channel_entries i")
  case (Inl e)
  then show ?thesis by (simp add: try_labels_def channel_entries_caught)
next
  case (Inr chs)
  obtain labels x where a: "append_labels repr chs [] = (labels, x)"
    by (cases "append_labels repr chs []")
  show ?thesis
  proof (cases x)
    case None
    with a Inr show ?thesis by (simp add: try_labels_def)
  next
    case (Some e)
    with a have "caught e" by (auto dest: append_labels_caught)
    with a Inr Some show ?thesis by (simp add: try_labels_def)
  qed
qed

lemma channel_labels_total: "\<exists>labels. channel_labels repr i = Inr labels"
  using try_labels_total [of repr i] by (auto simp: channel_labels_def)

subsection \<open>The marker loop\<close>

lemma describe_Inr: "describe v = Inr d \<longleftrightarrow> v \<noteq> PList [] \<and> d = described v"
  by (induction v rule: described.induct) auto

lemma describe_Inl: "describe v = Inl e \<longleftrightarrow> v = PList [] \<and> e = IndexError"
  by (induction v rule: described.induct) auto

lemma descriptions_of_Inr:
  "descriptions_of items = Inr ds \<longleftrightarrow> PList [] \<notin> set items \<and> ds = map described items"
  by (induction items arbitrary: ds) (auto simp: and_then_Inr describe_Inr)

lemma descriptions_of_Inl:
  "descriptions_of items = Inl e \<longleftrightarrow> PList [] \<in> set items \<and> e = IndexError"
  by (induction items) (auto simp: and_then_Inl describe_Inl describe_Inr)

lemma lib_call_Inr: "lib_call x = Inr y \<longleftrightarrow> x = Some y"
  by (cases x) (auto simp: lib_call_def)

lemma lib_call_Inl: "lib_call x = Inl e \<longleftrightarrow> x = None \<and> e = LibError"
  by (cases x) (auto simp: lib_call_def)

lemma stream_annotations_Inr:
  "stream_annotations lib first_samp m = Inr a \<longleftrightarrow>
     PList [] \<notin> set (series_items (time_series m)) \<and>
     Annotations lib (map (\<lambda>t. t - first_samp) (time_stamps m))
       (replicate (length (time_stamps m)) 0)
       (map described (series_items (time_series m))) = Some a"
  by (auto simp: stream_annotations_def Let_def and_then_Inr descriptions_of_Inr lib_call_Inr)

lemma stream_annotations_Inl:
  "stream_annotations lib first_samp m = Inl e \<Longrightarrow> e = IndexError \<or> e = LibError"
  by (auto simp: stream_annotations_def Let_def and_then_Inl descriptions_of_Inl lib_call_Inl)

lemma add_markers_Inl:
  "add_markers lib first_samp ms r = Inl e \<Longrightarrow> e = IndexError \<or> e = LibError"
  by (induction ms arbitrary: r)
    (auto simp: and_then_Inl lib_call_Inl dest: stream_annotations_Inl)

lemma add_markers_Cons_Inr:
  "add_markers lib first_samp (m # ms) r = Inr r' \<longleftrightarrow>
   (\<exists>a s r1.
      PList [] \<notin> set (series_items (time_series m)) \<and>
      Annotations lib (map (\<lambda>t. t - first_samp) (time_stamps m))
        (replicate (length (time_stamps m)) 0)
        (map described (series_items (time_series m))) = Some a \<and>
      annotations_add lib (annotations r) a = Some s \<and>
      set_annotations lib r s = Some r1 \<and>
      add_markers lib first_samp ms r1 = Inr r')"
  by (auto simp: and_then_Inr lib_call_Inr stream_annotations_Inr)


lemma make_raw_Inl: "make_raw repr fname s = Inl e \<Longrightarrow> e = LibError"
  using channel_labels_total [of repr "info s"]
  by (auto simp: make_raw_def Let_def and_then_Inl create_info_def np_array_def RawArray_def
      split: if_splits series.splits)

lemma make_raw_Inr:
  "make_raw repr fname s = Inr r \<Longrightarrow>
   \<exists>labels a. channel_labels repr (info s) = Inr labels \<and>
     length labels = channel_count (info s) \<and>
     time_series s = Numeric a \<and> shape1 a = channel_count (info s) \<and>
     r = \<lparr>data = T a,
          ch_info = \<lparr>ch_names = labels, sfreq = nominal_srate (info s),
                     ch_types = replicate (channel_count (info s)) ''eeg''\<rparr>,
          filenames = [fname], annotations = no_annotations\<rparr>"
  by (auto simp: make_raw_def Let_def and_then_Inr create_info_def np_array_def RawArray_def T_def
      split: if_splits series.splits)

subsection \<open>Selection\<close>

lemma find_eeg_stream_None:
  "find_eeg_stream nm dt streams = None \<longleftrightarrow>
   \<not> (\<exists>s \<in> set streams. if truthy nm then Some (name (info s)) = nm else type (info s) = dt)"
  by (induction streams) auto

lemma find_markers_streams_by_name:
  "truthy nm \<Longrightarrow>
   find_markers_streams nm mt streams =
     (case List.find (\<lambda>s. Some (name (info s)) = nm) streams of None \<Rightarrow> [] | Some s \<Rightarrow> [s])"
  by (induction streams) auto

lemma find_markers_streams_by_type:
  "\<not> truthy nm \<Longrightarrow>
   find_markers_streams nm mt streams = filter (\<lambda>s. type (info s) = mt) streams"
  by (induction streams) auto

text \<open>
  Claim C1.  \<open>read_raw_xdf\<close> scans the streams in the order the loader returned them.
  When a data-stream name is provided (the test of line 44 holds: the argument is
  neither \<open>None\<close> nor the empty string), the selected stream is the first one whose
  declared name equals that name, and neither the declared types nor the requested type
  take part in the choice.  When no name is provided, the selected stream is the first one
  whose declared type equals the requested data type.  \<open>List.find\<close> returns the first
  element that satisfies the test; the two modes exclude each other.
\<close>

theorem data_stream_selection:
  "(truthy name_stream_eeg \<longrightarrow>
      find_eeg_stream name_stream_eeg data_type streams =
        List.find (\<lambda>s. Some (name (info s)) = name_stream_eeg) streams) \<and>
   (\<not> truthy name_stream_eeg \<longrightarrow>
      find_eeg_stream name_stream_eeg data_type streams =
        List.find (\<lambda>s. type (info s) = data_type) streams)"
  by (simp add: find_eeg_stream_by_name find_eeg_stream_by_type)

theorem data_stream_selection_witness:
  "truthy (Some ''amp2'') \<and>
   find_eeg_stream (Some ''amp2'') ''EEG'' [ex_mk_a, ex_eeg, ex_eeg2] = Some ex_eeg2 \<and>
   \<not> truthy None \<and>
   find_eeg_stream None ''EEG'' [ex_mk_a, ex_eeg, ex_eeg2] = Some ex_eeg \<and>
   \<not> truthy (Some []) \<and>
   find_eeg_stream (Some []) ''EEG'' [ex_mk_a, ex_eeg, ex_eeg2] = Some ex_eeg"
  using data_stream_selection [of "Some ''amp2''" "''EEG''" "[ex_mk_a, ex_eeg, ex_eeg2]"]
    data_stream_selection [of None "''EEG''" "[ex_mk_a, ex_eeg, ex_eeg2]"]
    data_stream_selection [of "Some []" "''EEG''" "[ex_mk_a, ex_eeg, ex_eeg2]"]
  by (simp add: ex_defs)

text \<open>
  Claim C2.  \<open>read_raw_xdf\<close> raises \<open>NoStreamFound\<close> if and only if no stream of the
  input satisfies the selection criterion of the data stream: the given name when one is
  provided, the given data type otherwise.  The result is then the exception and not a
  recording (\<open>Inl\<close> and \<open>Inr\<close> are distinct), and no other step of the function raises
  this exception.
\<close>

theorem no_stream_found:
  "read_raw_xdf lib repr streams fname name_stream_eeg name_stream_markers data_type
     data_type_markers = Inl NoStreamFound \<longleftrightarrow>
   \<not> (\<exists>s \<in> set streams.
        if truthy name_stream_eeg then Some (name (info s)) = name_stream_eeg
        else type (info s) = data_type)"
proof (cases "find_eeg_stream name_stream_eeg data_type streams")
  case None
  then show ?thesis
    using find_eeg_stream_None [of name_stream_eeg data_type streams]
    by (simp add: read_raw_xdf_def)
next
  case (Some e)
  have "read_raw_xdf lib repr streams fname name_stream_eeg name_stream_markers data_type
          data_type_markers \<noteq> Inl NoStreamFound"
    using Some
    by (auto simp: read_raw_xdf_def and_then_Inl first_timestamp_def
        dest: make_raw_Inl add_markers_Inl split: list.splits)
  with Some show ?thesis
    using find_eeg_stream_None [of name_stream_eeg data_type streams] by simp
qed

theorem no_stream_found_witness:
  "read_raw_xdf ex_mne ex_repr [ex_mk_a, ex_eeg] ''rec.xdf'' (Some ''eeg'') None ''EEG'' ''Markers''
     = Inl NoStreamFound \<and>
   \<not> (\<exists>s \<in> set [ex_mk_a, ex_eeg].
        if truthy (Some ''eeg'') then Some (name (info s)) = Some ''eeg''
        else type (info s) = ''EEG'')"
  using no_stream_found [of ex_mne ex_repr "[ex_mk_a, ex_eeg]" "''rec.xdf''" "Some ''eeg''" None
      "''EEG''" "''Markers''"]
  by (simp add: ex_defs)

text \<open>
  Claim C4.  When a marker-stream name is provided, at most one marker stream is selected:
  the first stream whose declared name equals the name, also when several streams carry
  it.  When no name is provided, every stream whose declared type equals the requested
  marker type is selected, in the loader's order.  The data stream is a single stream in
  both modes (claim C1); the marker streams are a list.
\<close>

theorem marker_stream_selection:
  "(truthy name_stream_markers \<longrightarrow>
      find_markers_streams name_stream_markers data_type_markers streams =
        (case List.find (\<lambda>s. Some (name (info s)) = name_stream_markers) streams of
           None \<Rightarrow> [] | Some s \<Rightarrow> [s])) \<and>
   (\<not> truthy name_stream_markers \<longrightarrow>
      find_markers_streams name_stream_markers data_type_markers streams =
        filter (\<lambda>s. type (info s) = data_type_markers) streams)"
  by (simp add: find_markers_streams_by_name find_markers_streams_by_type)

theorem marker_stream_selection_witness:
  "truthy (Some ''mk'') \<and>
   find_markers_streams (Some ''mk'') ''Markers'' [ex_eeg, ex_mk_a, ex_mk_b] = [ex_mk_a] \<and>
   \<not> truthy None \<and>
   find_markers_streams None ''Markers'' [ex_eeg, ex_mk_a, ex_mk_b] = [ex_mk_a, ex_mk_b]"
  using marker_stream_selection [of "Some ''mk''" "''Markers''" "[ex_eeg, ex_mk_a, ex_mk_b]"]
    marker_stream_selection [of None "''Markers''" "[ex_eeg, ex_mk_a, ex_mk_b]"]
  by (simp add: ex_defs)

subsection \<open>The examples, evaluated\<close>

lemma generated_labels_2: "generated_labels 2 = [''EEG 0'', ''EEG 1'']"
  by (simp add: generated_labels_def str_nat.simps digit_char_def upt_rec)

lemma replicate_2: "replicate 2 x = [x, x]"
  by (simp add: numeral_2_eq_2)

lemma replicate_3: "replicate 3 x = [x, x, x]"
  by (simp add: numeral_3_eq_3)

lemma make_raw_ex_eeg: "make_raw ex_repr ''rec.xdf'' ex_eeg = Inr ex_raw_plain"
proof -
  have "channel_labels ex_repr (info ex_eeg) = Inr [''EEG 0'', ''EEG 1'']"
    by (simp add: channel_labels_def try_labels_def channel_entries_def generated_labels_2
        ex_eeg_def)
  then show ?thesis
    by (simp add: make_raw_def create_info_def np_array_def RawArray_def T_def
        no_annotations_def replicate_2 ex_eeg_def ex_raw_plain_def)
qed

lemma read_ex_plain:
  "read_raw_xdf ex_mne ex_repr [ex_eeg] ''rec.xdf'' None None ''EEG'' ''Markers''
     = Inr ex_raw_plain"
proof -
  have "find_eeg_stream None ''EEG'' [ex_eeg] = Some ex_eeg"
    by (simp add: ex_eeg_def)
  moreover have "find_markers_streams None ''Markers'' [ex_eeg] = []"
    by (simp add: ex_eeg_def)
  moreover have "first_timestamp (time_stamps ex_eeg) = Inr 10"
    by (simp add: first_timestamp_def ex_eeg_def)
  ultimately show ?thesis
    by (simp add: read_raw_xdf_def make_raw_ex_eeg)
qed

lemma make_raw_ex_long: "make_raw ex_repr ''rec.xdf'' ex_long = Inr ex_long_plain"
proof -
  have "channel_labels ex_repr (info ex_long) = Inr [''EEG 0'', ''EEG 1'']"
    by (simp add: channel_labels_def try_labels_def channel_entries_def generated_labels_2
        ex_long_def)
  then show ?thesis
    by (simp add: make_raw_def create_info_def np_array_def RawArray_def T_def
        no_annotations_def replicate_2 ex_long_def ex_long_plain_def)
qed

lemma time_stamps_ex_long: "time_stamps ex_long = 10 # map real [11..<41]"
  by (simp add: ex_long_def upt_conv_Cons)

lemma select_ex_long:
  "type (info m1) = ''Markers'' \<Longrightarrow> type (info m2) = ''Markers'' \<Longrightarrow>
   find_eeg_stream None ''EEG'' [ex_long, m1, m2] = Some ex_long \<and>
   find_markers_streams None ''Markers'' [ex_long, m1, m2] = [m1, m2]"
  by (simp add: ex_long_def)

lemma by_onset_sorted_a:
  "by_onset \<lparr>onset = [0, 5, 10], duration = [0, 0, 0],
             description = [PStr ''a'', PStr ''b'', PStr ''c'']\<rparr>
   = \<lparr>onset = [0, 5, 10], duration = [0, 0, 0],
      description = [PStr ''a'', PStr ''b'', PStr ''c'']\<rparr>"
  by (simp add: by_onset_def events_def of_events_def)

lemma ex_step_a:
  "stream_annotations ex_mne 10 ex_mk_a
     = Inr \<lparr>onset = [0, 5, 10], duration = [0, 0, 0],
            description = [PStr ''a'', PStr ''b'', PStr ''c'']\<rparr>"
  by (simp add: stream_annotations_def series_items_def lib_call_def ex_mne_def
      ex_Annotations_def by_onset_sorted_a replicate_3 ex_mk_a_def)

lemma ex_step_b:
  "stream_annotations ex_mne 10 ex_mk_b
     = Inr \<lparr>onset = [- 1, 20], duration = [0, 0], description = [PStr ''x'', PStr ''y'']\<rparr>"
  by (simp add: stream_annotations_def series_items_def lib_call_def ex_mne_def
      ex_Annotations_def by_onset_def events_def of_events_def replicate_2 ex_mk_b_def)

lemma ex_step_c:
  "stream_annotations ex_mne 10 ex_mk_c
     = Inr \<lparr>onset = [2, 10], duration = [0, 0], description = [PStr ''c1'', PStr ''c2'']\<rparr>"
  by (simp add: stream_annotations_def series_items_def lib_call_def ex_mne_def
      ex_Annotations_def by_onset_def events_def of_events_def replicate_2 ex_mk_c_def)

lemma ex_step_d:
  "stream_annotations ex_mne 10 ex_mk_d
     = Inr \<lparr>onset = [1, 5], duration = [0, 0], description = [PStr ''d1'', PStr ''d2'']\<rparr>"
  by (simp add: stream_annotations_def series_items_def lib_call_def ex_mne_def
      ex_Annotations_def by_onset_def events_def of_events_def replicate_2 ex_mk_d_def)

lemma ex_add_eval:
  "annotations_add ex_mne a b =
     Some (by_onset \<lparr>onset = onset a @ onset b, duration = duration a @ duration b,
                     description = description a @ description b\<rparr>)"
  by (simp add: ex_mne_def ex_add_def)

lemma ex_set_long:
  "data r = data ex_long_plain \<Longrightarrow> ch_info r = ch_info ex_long_plain \<Longrightarrow>
   set_annotations ex_mne r a =
     Some (r\<lparr>annotations := of_events (filter (\<lambda>e. 0 \<le> fst e \<and> fst e \<le> 31) (events a))\<rparr>)"
  by (simp add: ex_mne_def ex_set_def ex_long_plain_def)

lemma read_ex_long:
  "read_raw_xdf ex_mne ex_repr [ex_long, ex_mk_a, ex_mk_b] ''rec.xdf'' None None ''EEG''
     ''Markers'' = Inr ex_long_raw"
proof -
  have sel: "find_eeg_stream None ''EEG'' [ex_long, ex_mk_a, ex_mk_b] = Some ex_long \<and>
      find_markers_streams None ''Markers'' [ex_long, ex_mk_a, ex_mk_b] = [ex_mk_a, ex_mk_b]"
    by (rule select_ex_long) (simp_all add: ex_mk_a_def ex_mk_b_def)
  have "add_markers ex_mne 10 [ex_mk_a, ex_mk_b] ex_long_plain = Inr ex_long_raw"
    by (simp add: ex_step_a ex_step_b ex_add_eval lib_call_def ex_set_long)
      (simp add: ex_long_plain_def ex_long_raw_def by_onset_def events_def of_events_def)
  with sel show ?thesis
    by (simp add: read_raw_xdf_def make_raw_ex_long time_stamps_ex_long first_timestamp_def)
qed

lemma read_ex_sorted:
  "read_raw_xdf ex_mne ex_repr [ex_long, ex_mk_c, ex_mk_d] ''rec.xdf'' None None ''EEG''
     ''Markers'' = Inr ex_sorted_raw"
proof -
  have sel: "find_eeg_stream None ''EEG'' [ex_long, ex_mk_c, ex_mk_d] = Some ex_long \<and>
      find_markers_streams None ''Markers'' [ex_long, ex_mk_c, ex_mk_d] = [ex_mk_c, ex_mk_d]"
    by (rule select_ex_long) (simp_all add: ex_mk_c_def ex_mk_d_def)
  have "add_markers ex_mne 10 [ex_mk_c, ex_mk_d] ex_long_plain = Inr ex_sorted_raw"
    by (simp add: ex_step_c ex_step_d ex_add_eval lib_call_def ex_set_long)
      (simp add: ex_long_plain_def ex_sorted_raw_def by_onset_def events_def of_events_def)
  with sel show ?thesis
    by (simp add: read_raw_xdf_def make_raw_ex_long time_stamps_ex_long first_timestamp_def)
qed

subsection \<open>A run that returns a recording\<close>

lemma first_timestamp_Inr: "first_timestamp ts = Inr t \<longleftrightarrow> (\<exists>rest. ts = t # rest)"
  by (cases ts) (auto simp: first_timestamp_def)

lemma read_raw_xdf_Inr:
  "read_raw_xdf lib repr streams fname nm mk dt mt = Inr r \<longleftrightarrow>
   (\<exists>e t0 rest r0. find_eeg_stream nm dt streams = Some e \<and> time_stamps e = t0 # rest \<and>
      make_raw repr fname e = Inr r0 \<and>
      add_markers lib t0 (find_markers_streams mk mt streams) r0 = Inr r)"
  by (auto simp: read_raw_xdf_def and_then_Inr first_timestamp_Inr split: option.splits)


lemma add_markers_trace:
  "add_markers lib first_samp ms r0 = Inr r \<Longrightarrow>
   \<exists>rs. length rs = length ms \<and>
     (\<forall>k < length rs. \<exists>a s.
        Annotations lib (map (\<lambda>t. t - first_samp) (time_stamps (ms ! k)))
          (replicate (length (time_stamps (ms ! k))) 0)
          (map described (series_items (time_series (ms ! k)))) = Some a \<and>
        annotations_add lib (annotations ((r0 # rs) ! k)) a = Some s \<and>
        set_annotations lib ((r0 # rs) ! k) s = Some (rs ! k)) \<and>
     r = last (r0 # rs)"
proof (induction ms arbitrary: r0)
  case Nil
  then show ?case by simp
next
  case (Cons m ms)
  from Cons.prems obtain a s r1 where
    a: "Annotations lib (map (\<lambda>t. t - first_samp) (time_stamps m))
          (replicate (length (time_stamps m)) 0)
          (map described (series_items (time_series m))) = Some a" and
    s: "annotations_add lib (annotations r0) a = Some s" and
    r1: "set_annotations lib r0 s = Some r1" and
    rest: "add_markers lib first_samp ms r1 = Inr r"
    unfolding add_markers_Cons_Inr by blast
  from Cons.IH [OF rest] obtain rs where
    len: "length rs = length ms" and
    steps: "\<forall>k < length rs. \<exists>a s.
        Annotations lib (map (\<lambda>t. t - first_samp) (time_stamps (ms ! k)))
          (replicate (length (time_stamps (ms ! k))) 0)
          (map described (series_items (time_series (ms ! k)))) = Some a \<and>
        annotations_add lib (annotations ((r1 # rs) ! k)) a = Some s \<and>
        set_annotations lib ((r1 # rs) ! k) s = Some (rs ! k)" and
    last: "r = last (r1 # rs)"
    by blast
  have "\<forall>k < length (r1 # rs). \<exists>a s.
        Annotations lib (map (\<lambda>t. t - first_samp) (time_stamps ((m # ms) ! k)))
          (replicate (length (time_stamps ((m # ms) ! k))) 0)
          (map described (series_items (time_series ((m # ms) ! k)))) = Some a \<and>
        annotations_add lib (annotations ((r0 # r1 # rs) ! k)) a = Some s \<and>
        set_annotations lib ((r0 # r1 # rs) ! k) s = Some ((r1 # rs) ! k)"
  proof (intro allI impI)
    fix k
    assume k: "k < length (r1 # rs)"
    show "\<exists>a s.
        Annotations lib (map (\<lambda>t. t - first_samp) (time_stamps ((m # ms) ! k)))
          (replicate (length (time_stamps ((m # ms) ! k))) 0)
          (map described (series_items (time_series ((m # ms) ! k)))) = Some a \<and>
        annotations_add lib (annotations ((r0 # r1 # rs) ! k)) a = Some s \<and>
        set_annotations lib ((r0 # r1 # rs) ! k) s = Some ((r1 # rs) ! k)"
    proof (cases k)
      case 0
      with a s r1 show ?thesis by auto
    next
      case (Suc j)
      with k have "j < length rs" by simp
      with steps Suc show ?thesis by simp
    qed
  qed
  moreover have "length (r1 # rs) = length (m # ms)" using len by simp
  moreover have "r = last (r0 # r1 # rs)" using last by simp
  ultimately show ?case by blast
qed

lemma find_filter_single: "filter P xs = [x] \<Longrightarrow> List.find P xs = Some x"
  by (induction xs) (auto split: if_splits simp: filter_empty_conv)




text \<open>
  Claim C5 fails as stated: the final collection is not the concatenation of the
  per-stream event sequences in loader order.  The streams \<open>ex_mk_c\<close> and \<open>ex_mk_d\<close>
  are selected in this order, with the onsets 2, 10 and 1, 5; the collection of the
  returned recording has the onsets 1, 2, 5, 10, the events of the two streams
  interleaved, because the library keeps a collection ordered by onset.
\<close>

theorem annotations_order_counterexample:
  "read_raw_xdf ex_mne ex_repr [ex_long, ex_mk_c, ex_mk_d] ''rec.xdf'' None None ''EEG''
     ''Markers'' = Inr ex_sorted_raw \<and>
   find_markers_streams None ''Markers'' [ex_long, ex_mk_c, ex_mk_d] = [ex_mk_c, ex_mk_d] \<and>
   map (\<lambda>t. t - 10) (time_stamps ex_mk_c) @ map (\<lambda>t. t - 10) (time_stamps ex_mk_d)
     = [2, 10, 1, 5] \<and>
   onset (annotations ex_sorted_raw) = [1, 2, 5, 10] \<and>
   description (annotations ex_sorted_raw)
     = [PStr ''d1'', PStr ''c1'', PStr ''d2'', PStr ''c2''] \<and>
   [1, 2, 5, 10] \<noteq> [2, 10, 1, 5 :: real]"
proof -
  have "find_markers_streams None ''Markers'' [ex_long, ex_mk_c, ex_mk_d] = [ex_mk_c, ex_mk_d]"
    using select_ex_long [of ex_mk_c ex_mk_d] by (simp add: ex_mk_c_def ex_mk_d_def)
  then show ?thesis
    by (simp add: read_ex_sorted) (simp add: ex_mk_c_def ex_mk_d_def ex_sorted_raw_def)
qed

text \<open>
  Claim C5, amended.  When several marker streams are selected, \<open>read_raw_xdf\<close> treats
  them one after the other in loader order.  In each turn it adds the annotations of the
  stream to the existing collection of the recording with the library's \<open>+\<close> and stores
  that sum with \<open>set_annotations\<close>; it never stores the annotations of one stream alone.
  The returned recording is the last of the recordings \<open>r0, rs\<close> that arise in this way,
  starting from the recording \<open>r0\<close> of the data stream.  Whether the final collection
  holds all events, and in which order, is decided by the library's \<open>+\<close> and
  \<open>set_annotations\<close>, not by the loop.
\<close>

theorem annotations_accumulate:
  assumes "read_raw_xdf lib repr streams fname name_stream_eeg name_stream_markers data_type
             data_type_markers = Inr r"
  shows "\<exists>eeg_stream first_samp rest r0 rs.
     find_eeg_stream name_stream_eeg data_type streams = Some eeg_stream \<and>
     time_stamps eeg_stream = first_samp # rest \<and>
     make_raw repr fname eeg_stream = Inr r0 \<and>
     length rs = length (find_markers_streams name_stream_markers data_type_markers streams) \<and>
     (\<forall>k < length rs. \<exists>a s.
        Annotations lib
          (map (\<lambda>t. t - first_samp) (time_stamps
             (find_markers_streams name_stream_markers data_type_markers streams ! k)))
          (replicate (length (time_stamps
             (find_markers_streams name_stream_markers data_type_markers streams ! k))) 0)
          (map described (series_items (time_series
             (find_markers_streams name_stream_markers data_type_markers streams ! k)))) = Some a \<and>
        annotations_add lib (annotations ((r0 # rs) ! k)) a = Some s \<and>
        set_annotations lib ((r0 # rs) ! k) s = Some (rs ! k)) \<and>
     r = last (r0 # rs)"
proof -
  from assms obtain e t0 rest r0 where
    e: "find_eeg_stream name_stream_eeg data_type streams = Some e" and
    ts: "time_stamps e = t0 # rest" and
    r0: "make_raw repr fname e = Inr r0" and
    run: "add_markers lib t0 (find_markers_streams name_stream_markers data_type_markers streams)
            r0 = Inr r"
    by (auto simp: read_raw_xdf_Inr)
  from add_markers_trace [OF run] e ts r0 show ?thesis by blast
qed

theorem annotations_accumulate_witness:
  "read_raw_xdf ex_mne ex_repr [ex_long, ex_mk_c, ex_mk_d] ''rec.xdf'' None None ''EEG''
     ''Markers'' = Inr ex_sorted_raw \<and>
   find_eeg_stream None ''EEG'' [ex_long, ex_mk_c, ex_mk_d] = Some ex_long \<and>
   find_markers_streams None ''Markers'' [ex_long, ex_mk_c, ex_mk_d] = [ex_mk_c, ex_mk_d] \<and>
   make_raw ex_repr ''rec.xdf'' ex_long = Inr ex_long_plain \<and>
   Annotations ex_mne [2, 10] [0, 0] [PStr ''c1'', PStr ''c2'']
     = Some \<lparr>onset = [2, 10], duration = [0, 0], description = [PStr ''c1'', PStr ''c2'']\<rparr> \<and>
   annotations_add ex_mne (annotations ex_long_plain)
       \<lparr>onset = [2, 10], duration = [0, 0], description = [PStr ''c1'', PStr ''c2'']\<rparr>
     = Some \<lparr>onset = [2, 10], duration = [0, 0], description = [PStr ''c1'', PStr ''c2'']\<rparr> \<and>
   set_annotations ex_mne ex_long_plain
       \<lparr>onset = [2, 10], duration = [0, 0], description = [PStr ''c1'', PStr ''c2'']\<rparr>
     = Some (ex_long_plain\<lparr>annotations :=
         \<lparr>onset = [2, 10], duration = [0, 0], description = [PStr ''c1'', PStr ''c2'']\<rparr>\<rparr>) \<and>
   Annotations ex_mne [1, 5] [0, 0] [PStr ''d1'', PStr ''d2'']
     = Some \<lparr>onset = [1, 5], duration = [0, 0], description = [PStr ''d1'', PStr ''d2'']\<rparr> \<and>
   annotations_add ex_mne
       \<lparr>onset = [2, 10], duration = [0, 0], description = [PStr ''c1'', PStr ''c2'']\<rparr>
       \<lparr>onset = [1, 5], duration = [0, 0], description = [PStr ''d1'', PStr ''d2'']\<rparr>
     = Some (annotations ex_sorted_raw) \<and>
   set_annotations ex_mne
       (ex_long_plain\<lparr>annotations :=
         \<lparr>onset = [2, 10], duration = [0, 0], description = [PStr ''c1'', PStr ''c2'']\<rparr>\<rparr>)
       (annotations ex_sorted_raw)
     = Some ex_sorted_raw"
proof -
  note 1 = read_ex_sorted
  have sel: "find_eeg_stream None ''EEG'' [ex_long, ex_mk_c, ex_mk_d] = Some ex_long \<and>
      find_markers_streams None ''Markers'' [ex_long, ex_mk_c, ex_mk_d] = [ex_mk_c, ex_mk_d]"
    by (rule select_ex_long) (simp_all add: ex_mk_c_def ex_mk_d_def)
  have c: "Annotations ex_mne [2, 10] [0, 0] [PStr ''c1'', PStr ''c2'']
     = Some \<lparr>onset = [2, 10], duration = [0, 0], description = [PStr ''c1'', PStr ''c2'']\<rparr>"
    by (simp add: ex_mne_def ex_Annotations_def by_onset_def events_def of_events_def)
  have d: "Annotations ex_mne [1, 5] [0, 0] [PStr ''d1'', PStr ''d2'']
     = Some \<lparr>onset = [1, 5], duration = [0, 0], description = [PStr ''d1'', PStr ''d2'']\<rparr>"
    by (simp add: ex_mne_def ex_Annotations_def by_onset_def events_def of_events_def)
  have add1: "annotations_add ex_mne (annotations ex_long_plain)
       \<lparr>onset = [2, 10], duration = [0, 0], description = [PStr ''c1'', PStr ''c2'']\<rparr>
     = Some \<lparr>onset = [2, 10], duration = [0, 0], description = [PStr ''c1'', PStr ''c2'']\<rparr>"
    by (simp add: ex_add_eval ex_long_plain_def by_onset_def events_def of_events_def)
  have set1: "set_annotations ex_mne ex_long_plain
       \<lparr>onset = [2, 10], duration = [0, 0], description = [PStr ''c1'', PStr ''c2'']\<rparr>
     = Some (ex_long_plain\<lparr>annotations :=
         \<lparr>onset = [2, 10], duration = [0, 0], description = [PStr ''c1'', PStr ''c2'']\<rparr>\<rparr>)"
    by (simp add: ex_set_long events_def of_events_def)
  have add2: "annotations_add ex_mne
       \<lparr>onset = [2, 10], duration = [0, 0], description = [PStr ''c1'', PStr ''c2'']\<rparr>
       \<lparr>onset = [1, 5], duration = [0, 0], description = [PStr ''d1'', PStr ''d2'']\<rparr>
     = Some (annotations ex_sorted_raw)"
    by (simp add: ex_add_eval ex_sorted_raw_def by_onset_def events_def of_events_def)
  have set2: "set_annotations ex_mne
       (ex_long_plain\<lparr>annotations :=
         \<lparr>onset = [2, 10], duration = [0, 0], description = [PStr ''c1'', PStr ''c2'']\<rparr>\<rparr>)
       (annotations ex_sorted_raw)
     = Some ex_sorted_raw"
    by (simp add: ex_set_long) (simp add: ex_sorted_raw_def events_def of_events_def)
  from annotations_accumulate [OF 1] have "\<exists>rs :: real raw list.
      length rs = length (find_markers_streams None ''Markers'' [ex_long, ex_mk_c, ex_mk_d])"
    by (elim exE conjE) (rule exI, assumption)
  then obtain rs :: "real raw list" where
    "length rs = length (find_markers_streams None ''Markers'' [ex_long, ex_mk_c, ex_mk_d])"
    by (rule exE)
  with sel have "length rs = 2" by simp
  with 1 sel make_raw_ex_long c d add1 set1 add2 set2 show ?thesis by simp
qed

text \<open>
  Claim C6.  The input holds exactly one stream of the requested data type, no data-stream
  name is given, and no stream is selected as a marker stream.  Then the recording that
  \<open>read_raw_xdf\<close> returns has as its data the transpose of the stream's sample matrix
  (samples by channels in the source, channels by samples in the recording), as many
  channels and channel names as the stream declares in \<open>channel_count\<close>, as many samples
  as the stream's \<open>time_series\<close> has rows, and an empty annotation collection.
\<close>

theorem single_stream_recording:
  assumes "\<not> truthy name_stream_eeg"
    and "filter (\<lambda>s. type (info s) = data_type) streams = [eeg_stream]"
    and "find_markers_streams name_stream_markers data_type_markers streams = []"
    and "read_raw_xdf lib repr streams fname name_stream_eeg name_stream_markers data_type
           data_type_markers = Inr r"
  shows "\<exists>a. time_series eeg_stream = Numeric a \<and>
     data r = T a \<and>
     shape0 (data r) = channel_count (info eeg_stream) \<and>
     length (ch_names (ch_info r)) = channel_count (info eeg_stream) \<and>
     shape1 (data r) = shape0 a \<and>
     annotations r = no_annotations"
proof -
  from assms(1,2) have sel: "find_eeg_stream name_stream_eeg data_type streams = Some eeg_stream"
    by (simp add: find_eeg_stream_by_type find_filter_single)
  from assms(4) sel assms(3) obtain r0 where
    r0: "make_raw repr fname eeg_stream = Inr r0" and
    "add_markers lib (hd (time_stamps eeg_stream)) [] r0 = Inr r"
    by (auto simp: read_raw_xdf_Inr)
  then have "r = r0" by simp
  with make_raw_Inr [OF r0] show ?thesis
    by (auto simp: T_def)
qed

theorem single_stream_recording_witness:
  "\<not> truthy None \<and>
   filter (\<lambda>s. type (info s) = ''EEG'') [ex_eeg] = [ex_eeg] \<and>
   find_markers_streams None ''Markers'' [ex_eeg] = [] \<and>
   read_raw_xdf ex_mne ex_repr [ex_eeg] ''rec.xdf'' None None ''EEG'' ''Markers''
     = Inr ex_raw_plain \<and>
   time_series ex_eeg = Numeric \<lparr>shape0 = 3, shape1 = 2, entry = (\<lambda>i j. real (2 * i + j))\<rparr> \<and>
   data ex_raw_plain = T \<lparr>shape0 = 3, shape1 = 2, entry = (\<lambda>i j. real (2 * i + j))\<rparr> \<and>
   shape0 (data ex_raw_plain) = 2 \<and> channel_count (info ex_eeg) = 2 \<and>
   length (ch_names (ch_info ex_raw_plain)) = 2 \<and>
   shape1 (data ex_raw_plain) = 3 \<and>
   annotations ex_raw_plain = no_annotations"
proof -
  have 1: "\<not> truthy None" by simp
  have 2: "filter (\<lambda>s. type (info s) = ''EEG'') [ex_eeg] = [ex_eeg]"
    by (simp add: ex_eeg_def)
  have 3: "find_markers_streams None ''Markers'' [ex_eeg] = []"
    by (simp add: ex_eeg_def)
  note 4 = read_ex_plain
  have 5: "time_series ex_eeg
      = Numeric \<lparr>shape0 = 3, shape1 = 2, entry = (\<lambda>i j. real (2 * i + j))\<rparr>"
    by (simp add: ex_eeg_def)
  from single_stream_recording [OF 1 2 3 4] 5
  have "data ex_raw_plain = T \<lparr>shape0 = 3, shape1 = 2, entry = (\<lambda>i j. real (2 * i + j))\<rparr> \<and>
     shape0 (data ex_raw_plain) = channel_count (info ex_eeg) \<and>
     length (ch_names (ch_info ex_raw_plain)) = channel_count (info ex_eeg) \<and>
     shape1 (data ex_raw_plain) = 3 \<and>
     annotations ex_raw_plain = no_annotations"
    by auto
  moreover have "channel_count (info ex_eeg) = 2" by (simp add: ex_eeg_def)
  ultimately show ?thesis using 1 2 3 4 5 by (simp add: T_def)
qed

text \<open>
  Claim C9 fails as stated.  With no stream of the marker type, and with a marker-stream
  name that no stream carries, the list of marker streams is empty, the loop of lines
  91-99 has nothing to do, and \<open>read_raw_xdf\<close> returns the recording: nothing is raised.
\<close>

theorem absent_marker_counterexample:
  "find_markers_streams None ''Markers'' [ex_eeg] = [] \<and>
   read_raw_xdf ex_mne ex_repr [ex_eeg] ''rec.xdf'' None None ''EEG'' ''Markers'' = Inr ex_raw_plain \<and>
   find_markers_streams (Some ''mk'') ''Markers'' [ex_eeg, ex_eeg2] = [] \<and>
   read_raw_xdf ex_mne ex_repr [ex_eeg, ex_eeg2] ''rec.xdf'' None (Some ''mk'') ''EEG'' ''Markers''
     = Inr ex_raw_plain"
proof -
  have "find_eeg_stream None ''EEG'' [ex_eeg, ex_eeg2] = Some ex_eeg"
    by (simp add: ex_eeg_def)
  moreover have "find_markers_streams (Some ''mk'') ''Markers'' [ex_eeg, ex_eeg2] = []"
    by (simp add: ex_eeg_def ex_eeg2_def)
  moreover have "first_timestamp (time_stamps ex_eeg) = Inr 10"
    by (simp add: first_timestamp_def ex_eeg_def)
  ultimately have "read_raw_xdf ex_mne ex_repr [ex_eeg, ex_eeg2] ''rec.xdf'' None (Some ''mk'') ''EEG''
      ''Markers'' = Inr ex_raw_plain"
    by (simp add: read_raw_xdf_def make_raw_ex_eeg)
  then show ?thesis
    by (simp add: read_ex_plain) (simp add: ex_eeg_def ex_eeg2_def)
qed

text \<open>
  Claim C9, amended.  An absent marker-stream match (no stream carries the given marker
  name, or none has the requested marker type) is not an error of any kind: when the data
  stream is selected, its recording is built and it has a first timestamp, \<open>read_raw_xdf\<close>
  returns that recording, and its annotation collection is empty.
\<close>

theorem absent_marker_match:
  assumes "find_markers_streams name_stream_markers data_type_markers streams = []"
    and "find_eeg_stream name_stream_eeg data_type streams = Some eeg_stream"
    and "make_raw repr fname eeg_stream = Inr r"
    and "time_stamps eeg_stream = first_samp # rest"
  shows "read_raw_xdf lib repr streams fname name_stream_eeg name_stream_markers data_type
           data_type_markers = Inr r \<and>
         annotations r = no_annotations"
  using assms make_raw_Inr [OF assms(3)]
  by (auto simp: read_raw_xdf_def first_timestamp_def)

theorem absent_marker_match_witness:
  "find_markers_streams (Some ''mk'') ''Markers'' [ex_eeg] = [] \<and>
   find_eeg_stream None ''EEG'' [ex_eeg] = Some ex_eeg \<and>
   make_raw ex_repr ''rec.xdf'' ex_eeg = Inr ex_raw_plain \<and>
   time_stamps ex_eeg = 10 # [11, 12] \<and>
   read_raw_xdf ex_mne ex_repr [ex_eeg] ''rec.xdf'' None (Some ''mk'') ''EEG'' ''Markers''
     = Inr ex_raw_plain \<and>
   annotations ex_raw_plain = no_annotations"
proof -
  have 1: "find_markers_streams (Some ''mk'') ''Markers'' [ex_eeg] = []"
    by (simp add: ex_eeg_def)
  have 2: "find_eeg_stream None ''EEG'' [ex_eeg] = Some ex_eeg"
    by (simp add: ex_eeg_def)
  have 4: "time_stamps ex_eeg = 10 # [11, 12]"
    by (simp add: ex_eeg_def)
  from absent_marker_match [OF 1 2 make_raw_ex_eeg 4] 1 2 4 make_raw_ex_eeg
  show ?thesis by simp
qed

subsection \<open>The fallback of line 66\<close>

lemma length_generated_labels: "length (generated_labels n) = n"
  by (simp add: generated_labels_def)

lemma channel_labels_fallback:
  "try_labels repr i = Inr [] \<Longrightarrow>
   channel_labels repr i = Inr (generated_labels (channel_count i))"
  by (simp add: channel_labels_def)

lemma channel_labels_no_descriptor:
  "channel_entries i = Inl e \<Longrightarrow>
   channel_labels repr i = Inr (generated_labels (channel_count i))"
  by (simp add: channel_labels_def try_labels_def channel_entries_caught)

subsection \<open>The labels of the example with a partial descriptor\<close>

lemma channel_labels_ex_partial: "channel_labels ex_repr (info ex_partial) = Inr [''Fp1'']"
  by (simp add: channel_labels_def try_labels_def channel_entries_def ex_partial_def ex_eeg_def)

text \<open>
  Claim C7 at a descriptor whose second channel has no \<open>'label'\<close> key.  The loop of line
  61 appends \<open>'Fp1'\<close> for the first channel, the second raises \<open>KeyError\<close>, line 63
  catches it, and \<open>labels\<close> is not empty: the fallback of line 66 does not run.  The
  channel names are \<open>['Fp1']\<close> and not the generated list \<open>['EEG 0', 'EEG 1']\<close>, and with
  one name for two channel types the construction of the recording fails.
\<close>

theorem label_fallback_partial_descriptor:
  "channel_entries (info ex_partial) = Inr [PDict [(''label'', PList [PStr ''Fp1''])], PDict []] \<and>
   subscript_key (PDict [] :: real pyval) ''label'' = Inl KeyError \<and>
   channel_labels ex_repr (info ex_partial) = Inr [''Fp1''] \<and>
   generated_labels (channel_count (info ex_partial)) = [''EEG 0'', ''EEG 1''] \<and>
   read_raw_xdf ex_mne ex_repr [ex_partial] ''rec.xdf'' None None ''EEG'' ''Markers'' = Inl LibError"
proof -
  have "channel_entries (info ex_partial)
      = Inr [PDict [(''label'', PList [PStr ''Fp1''])], PDict []]"
    by (simp add: channel_entries_def ex_partial_def ex_eeg_def)
  moreover have "generated_labels (channel_count (info ex_partial)) = [''EEG 0'', ''EEG 1'']"
    by (simp add: ex_partial_def ex_eeg_def generated_labels_2)
  moreover have "find_eeg_stream None ''EEG'' [ex_partial] = Some ex_partial"
    by (simp add: ex_partial_def ex_eeg_def)
  moreover have "make_raw ex_repr ''rec.xdf'' ex_partial = Inl LibError"
    by (simp add: make_raw_def channel_labels_ex_partial create_info_def replicate_2)
      (simp add: ex_partial_def ex_eeg_def)
  ultimately show ?thesis
    by (simp add: channel_labels_ex_partial read_raw_xdf_def)
qed

text \<open>
  Claim C8 at the same descriptor: the label list that \<open>read_raw_xdf\<close> constructs has one
  element, and the stream declares two channels.
\<close>

theorem label_count_partial_descriptor:
  "channel_labels ex_repr (info ex_partial) = Inr [''Fp1''] \<and>
   length [''Fp1''] = 1 \<and>
   channel_count (info ex_partial) = 2"
  by (simp add: channel_labels_ex_partial) (simp add: ex_partial_def ex_eeg_def)

text \<open>
  Claim C10 fails as stated.  With a timestamp in the selected data stream the function
  is not total: the data stream \<open>ex_eeg\<close> has three timestamps and its recording is
  built, yet the run ends in \<open>IndexError\<close>, raised by \<open>item[0]\<close> of line 95 on the empty
  event value of the marker stream.  And a selected data stream without timestamps does
  not always fail with an indexing error: for the stream \<open>ex_partial\<close> without its
  timestamps the construction of the recording fails before line 76 is reached.
\<close>

theorem first_timestamp_counterexample:
  "find_eeg_stream None ''EEG'' [ex_eeg, ex_mk_empty] = Some ex_eeg \<and>
   time_stamps ex_eeg = [10, 11, 12] \<and>
   read_raw_xdf ex_mne ex_repr [ex_eeg, ex_mk_empty] ''rec.xdf'' None None ''EEG'' ''Markers''
     = Inl IndexError \<and>
   find_eeg_stream None ''EEG'' [ex_partial\<lparr>time_stamps := []\<rparr>]
     = Some (ex_partial\<lparr>time_stamps := []\<rparr>) \<and>
   read_raw_xdf ex_mne ex_repr [ex_partial\<lparr>time_stamps := []\<rparr>] ''rec.xdf'' None None ''EEG''
     ''Markers'' = Inl LibError"
proof -
  have "find_eeg_stream None ''EEG'' [ex_eeg, ex_mk_empty] = Some ex_eeg"
    by (simp add: ex_eeg_def)
  moreover have "find_markers_streams None ''Markers'' [ex_eeg, ex_mk_empty] = [ex_mk_empty]"
    by (simp add: ex_eeg_def ex_mk_empty_def)
  moreover have "first_timestamp (time_stamps ex_eeg) = Inr 10"
    by (simp add: first_timestamp_def ex_eeg_def)
  moreover have "stream_annotations ex_mne 10 ex_mk_empty = Inl IndexError"
    by (simp add: stream_annotations_def series_items_def ex_mk_empty_def)
  moreover have "time_stamps ex_eeg = [10, 11, 12]"
    by (simp add: ex_eeg_def)
  moreover have "find_eeg_stream None ''EEG'' [ex_partial\<lparr>time_stamps := []\<rparr>]
      = Some (ex_partial\<lparr>time_stamps := []\<rparr>)"
    by (simp add: ex_partial_def ex_eeg_def)
  moreover have "make_raw ex_repr ''rec.xdf'' (ex_partial\<lparr>time_stamps := []\<rparr>) = Inl LibError"
    using channel_labels_ex_partial
    by (simp add: make_raw_def create_info_def replicate_2) (simp add: ex_partial_def ex_eeg_def)
  ultimately show ?thesis
    by (simp add: read_raw_xdf_def make_raw_ex_eeg)
qed

text \<open>
  Claim C10, amended.  \<open>read_raw_xdf\<close> reads the first timestamp of the selected data
  stream with an unguarded index into \<open>time_stamps\<close>, after the recording has been built
  (lines 57-73).  If the stream has at least one timestamp, the access succeeds and yields
  the first one, and the function goes on to the marker streams: its result is that of
  the loop of lines 91-99, which can still raise.  If the stream has no timestamp, the
  access raises \<open>IndexError\<close> and the function fails with it, whatever the marker streams
  and the library are: the marker streams are not reached.
\<close>

theorem first_timestamp_precondition:
  assumes "find_eeg_stream name_stream_eeg data_type streams = Some eeg_stream"
    and "make_raw repr fname eeg_stream = Inr r0"
  shows "(time_stamps eeg_stream = [] \<longrightarrow>
            read_raw_xdf lib repr streams fname name_stream_eeg name_stream_markers data_type
              data_type_markers = Inl IndexError) \<and>
         (\<forall>first_samp rest. time_stamps eeg_stream = first_samp # rest \<longrightarrow>
            first_timestamp (time_stamps eeg_stream) = Inr first_samp \<and>
            read_raw_xdf lib repr streams fname name_stream_eeg name_stream_markers data_type
              data_type_markers =
              add_markers lib first_samp
                (find_markers_streams name_stream_markers data_type_markers streams) r0)"
  using assms by (simp add: read_raw_xdf_def first_timestamp_def)

theorem first_timestamp_precondition_witness:
  "find_eeg_stream None ''EEG'' [ex_long, ex_mk_a, ex_mk_b] = Some ex_long \<and>
   make_raw ex_repr ''rec.xdf'' ex_long = Inr ex_long_plain \<and>
   time_stamps ex_long = 10 # map real [11..<41] \<and>
   first_timestamp (time_stamps ex_long) = Inr 10 \<and>
   add_markers ex_mne 10 (find_markers_streams None ''Markers'' [ex_long, ex_mk_a, ex_mk_b])
     ex_long_plain = Inr ex_long_raw \<and>
   find_eeg_stream None ''EEG'' [ex_eeg\<lparr>time_stamps := []\<rparr>, ex_mk_a]
     = Some (ex_eeg\<lparr>time_stamps := []\<rparr>) \<and>
   make_raw ex_repr ''rec.xdf'' (ex_eeg\<lparr>time_stamps := []\<rparr>) = Inr ex_raw_plain \<and>
   time_stamps (ex_eeg\<lparr>time_stamps := []\<rparr>) = [] \<and>
   read_raw_xdf ex_mne ex_repr [ex_eeg\<lparr>time_stamps := []\<rparr>, ex_mk_a] ''rec.xdf'' None None
     ''EEG'' ''Markers'' = Inl IndexError"
proof -
  have 1: "find_eeg_stream None ''EEG'' [ex_long, ex_mk_a, ex_mk_b] = Some ex_long"
    by (simp add: ex_long_def)
  note 2 = time_stamps_ex_long
  have 3: "find_eeg_stream None ''EEG'' [ex_eeg\<lparr>time_stamps := []\<rparr>, ex_mk_a]
      = Some (ex_eeg\<lparr>time_stamps := []\<rparr>)"
    by (simp add: ex_eeg_def)
  have 4: "make_raw ex_repr ''rec.xdf'' (ex_eeg\<lparr>time_stamps := []\<rparr>) = Inr ex_raw_plain"
    using make_raw_ex_eeg by (simp add: make_raw_def)
  have 5: "time_stamps (ex_eeg\<lparr>time_stamps := []\<rparr>) = []"
    by simp
  from first_timestamp_precondition [OF 1 make_raw_ex_long, of ex_mne None "''Markers''"] 2
  have "first_timestamp (time_stamps ex_long) = Inr 10 \<and>
     read_raw_xdf ex_mne ex_repr [ex_long, ex_mk_a, ex_mk_b] ''rec.xdf'' None None ''EEG''
       ''Markers'' =
     add_markers ex_mne 10 (find_markers_streams None ''Markers'' [ex_long, ex_mk_a, ex_mk_b])
       ex_long_plain"
    by simp
  then have "first_timestamp (time_stamps ex_long) = Inr 10 \<and>
     add_markers ex_mne 10 (find_markers_streams None ''Markers'' [ex_long, ex_mk_a, ex_mk_b])
       ex_long_plain = Inr ex_long_raw"
    using read_ex_long by simp
  moreover from first_timestamp_precondition [OF 3 4, of ex_mne None "''Markers''"] 5
  have "read_raw_xdf ex_mne ex_repr [ex_eeg\<lparr>time_stamps := []\<rparr>, ex_mk_a] ''rec.xdf'' None None
     ''EEG'' ''Markers'' = Inl IndexError"
    by simp
  ultimately show ?thesis
    using 1 2 3 4 5 make_raw_ex_long by simp
qed

end
